theory Spec2Isabelle
  imports Complex_Main
begin

section \<open>BizFlow order lifecycle: data model\<close>

text \<open>
  The embedding follows \<open>services/order_service.py\<close> and the SQLAlchemy models under
  \<open>infrastructure/models\<close>. A \<open>Decimal\<close> (a \<open>Numeric\<close> column) is a rational
  number: Python's decimal addition, subtraction and multiplication are exact on the
  column widths used here. Primary keys are natural numbers. Text columns that only feed
  reports (names, movement notes, entry descriptions) are not part of the model; the
  order's \<open>notes\<close> column is, because cancellation rewrites it.
\<close>

type_synonym decimal = rat

text \<open>A calendar date (year, month, day) and a timestamp (date, seconds of the day).\<close>

type_synonym date = "nat \<times> nat \<times> nat"
type_synonym datetime = "date \<times> nat"

datatype Role = ADMIN | OWNER | EMPLOYEE

datatype OrderStatus = NEW | CONFIRMED | COMPLETED | CANCELED

datatype TransactionType =
  REVENUE | EXPENSE | DEBT_IN | DEBT_OUT | PAYMENT_IN | PAYMENT_OUT
  | INVENTORY_IN | INVENTORY_OUT

text \<open>
  The exceptions of \<open>domain/exceptions.py\<close> that the order service can raise, and
  Python's \<open>AttributeError\<close> for an attribute read on a relationship that is \<open>None\<close>.
\<close>

datatype error =
  AuthorizationError | ValidationError | NotFoundError | InsufficientStockError
  | InsufficientBalanceError | OrderAlreadyConfirmedError | AttributeError

record User =
  user_id :: nat
  user_role :: Role
  user_store_id :: "nat option"
  owned_stores :: "nat list"

record Customer =
  c_id :: nat
  c_store_id :: nat
  debt_balance :: decimal
  debt_limit :: "decimal option"

record Product =
  p_id :: nat
  p_store_id :: nat

record ProductUnit =
  pu_id :: nat
  pu_product_id :: nat
  price :: decimal
  conversion_factor :: decimal

record Order =
  o_id :: nat
  o_store_id :: nat
  customer_id :: "nat option"
  order_number :: string
  status :: OrderStatus
  is_credit :: bool
  total_amount :: decimal
  paid_amount :: decimal
  o_notes :: "string option"
  created_by_user_id :: nat
  confirmed_at :: "datetime option"
  confirmed_by_user_id :: "nat option"
  source_draft_order_id :: "nat option"
  created_at :: datetime

record OrderDetail =
  order_id :: nat
  product_id :: nat
  product_unit_id :: nat
  quantity :: decimal
  unit_price :: decimal
  discount :: decimal
  line_total :: decimal
  d_notes :: "string option"

record InventoryTransaction =
  t_store_id :: nat
  t_product_id :: nat
  t_product_unit_id :: "nat option"
  qty_change :: decimal
  ref_type :: "string option"
  ref_id :: "nat option"
  t_created_by_user_id :: nat

record BookkeepingEntry =
  e_store_id :: nat
  entry_type :: TransactionType
  e_ref_type :: string
  e_ref_id :: nat
  amount :: decimal
  entry_date :: date
  e_created_by_user_id :: nat

text \<open>
  The database session: one list of rows per table, in insertion order. An operation
  either commits, returning the order it worked on and the new tables, or raises; a raise
  carries the tables as the session held them at that moment (rows added but never
  committed included), so that "nothing was written" is a statement about that value.
\<close>

record db =
  customers :: "Customer list"
  products :: "Product list"
  product_units :: "ProductUnit list"
  orders :: "Order list"
  order_details :: "OrderDetail list"
  inventory_transactions :: "InventoryTransaction list"
  bookkeeping_entries :: "BookkeepingEntry list"

datatype result = Raised error db | Returned Order db

section \<open>Python floats\<close>

text \<open>
  \<open>confirm_order\<close> and \<open>cancel_order\<close> convert a line to base units with
  \<open>float(quantity) * float(conversion_factor)\<close>. \<open>float\<close> of a \<open>Decimal\<close> is
  the nearest IEEE-754 double, ties to even, and so is the product of two doubles. A double
  is modelled by the rational it denotes; \<open>to_float\<close> rounds a rational to 53
  significant bits. Overflow and subnormal numbers are outside the model: they start beyond
  \<open>2 ^ 1023\<close> and below \<open>2 ^ - 1022\<close>, far from any \<open>Numeric(15, 4)\<close> value or
  product of two of them.
\<close>

fun bit_length :: "nat \<Rightarrow> nat" where
  "bit_length n = (if n = 0 then 0 else Suc (bit_length (n div 2)))"

declare bit_length.simps [simp del]

definition pow2 :: "int \<Rightarrow> rat" where
  "pow2 e = (if 0 \<le> e then 2 ^ nat e else 1 / 2 ^ nat (- e))"

text \<open>The exponent \<open>e\<close> with \<open>2 ^ e \<le> a < 2 ^ (e + 1)\<close>, for \<open>a > 0\<close>.\<close>

definition float_exponent :: "rat \<Rightarrow> int" where
  "float_exponent a =
     (if 1 \<le> a then int (bit_length (nat \<lfloor>a\<rfloor>)) - 1
      else (let k = int (bit_length (nat \<lfloor>1 / a\<rfloor>)) - 1
            in if pow2 (- k) \<le> a then - k else - k - 1))"

definition round_half_even :: "rat \<Rightarrow> int" where
  "round_half_even r =
     (let f = \<lfloor>r\<rfloor>; d = r - of_int f
      in if d < 1 / 2 then f else if 1 / 2 < d then f + 1
         else if even f then f else f + 1)"

definition to_float :: "rat \<Rightarrow> rat" where
  "to_float x =
     (if x = 0 then 0
      else (let a = \<bar>x\<bar>; e = float_exponent a; ulp = pow2 (e - 52);
                m = round_half_even (a / ulp)
            in sgn x * of_int m * ulp))"

definition float_mul :: "rat \<Rightarrow> rat \<Rightarrow> rat" where
  "float_mul a b = to_float (a * b)"

section \<open>Customer: the debt account\<close>

text \<open>\<open>Customer.can_add_debt\<close>, \<open>add_debt\<close> and \<open>reduce_debt\<close> (customer.py).\<close>

definition can_add_debt :: "Customer \<Rightarrow> decimal \<Rightarrow> bool" where
  "can_add_debt c a =
     (case debt_limit c of
        None \<Rightarrow> True
      | Some limit \<Rightarrow> if limit = 0 then True else debt_balance c + a \<le> limit)"

definition add_debt :: "Customer \<Rightarrow> decimal \<Rightarrow> Customer" where
  "add_debt c a = c\<lparr>debt_balance := debt_balance c + a\<rparr>"

definition reduce_debt :: "Customer \<Rightarrow> decimal \<Rightarrow> Customer" where
  "reduce_debt c a = c\<lparr>debt_balance := max 0 (debt_balance c - a)\<rparr>"

section \<open>Access control\<close>

text \<open>
  \<open>User.can_access_store\<close> (user.py); \<open>owned_stores\<close> holds the ids of the stores
  the user owns.
\<close>

definition can_access_store :: "User \<Rightarrow> nat \<Rightarrow> bool" where
  "can_access_store u store_id =
     (if user_role u = ADMIN then True
      else if user_role u = OWNER then list_ex (\<lambda>s. s = store_id) (owned_stores u)
      else if user_role u = EMPLOYEE then user_store_id u = Some store_id
      else False)"

section \<open>Queries and relationships\<close>

text \<open>\<open>Model.query.get(id)\<close>: the row with that primary key, if any.\<close>

definition get_order :: "db \<Rightarrow> nat \<Rightarrow> Order option" where
  "get_order s i = find (\<lambda>r. o_id r = i) (orders s)"

definition get_product :: "db \<Rightarrow> nat \<Rightarrow> Product option" where
  "get_product s i = find (\<lambda>p. p_id p = i) (products s)"

definition get_product_unit :: "db \<Rightarrow> nat \<Rightarrow> ProductUnit option" where
  "get_product_unit s i = find (\<lambda>pu. pu_id pu = i) (product_units s)"

definition get_customer :: "db \<Rightarrow> nat \<Rightarrow> Customer option" where
  "get_customer s i = find (\<lambda>c. c_id c = i) (customers s)"

text \<open>The relationships \<open>order.customer\<close> and \<open>order.items.all()\<close>.\<close>

definition order_customer :: "db \<Rightarrow> Order \<Rightarrow> Customer option" where
  "order_customer s order =
     (case customer_id order of None \<Rightarrow> None | Some i \<Rightarrow> get_customer s i)"

definition order_items :: "db \<Rightarrow> Order \<Rightarrow> OrderDetail list" where
  "order_items s order = filter (\<lambda>d. order_id d = o_id order) (order_details s)"

text \<open>The relationships \<open>item.product\<close> and \<open>item.product_unit\<close> of an order line.\<close>

definition line_product :: "db \<Rightarrow> OrderDetail \<Rightarrow> Product option" where
  "line_product s item = get_product s (product_id item)"

definition line_unit :: "db \<Rightarrow> OrderDetail \<Rightarrow> ProductUnit option" where
  "line_unit s item = get_product_unit s (product_unit_id item)"

text \<open>
  An attribute written on a loaded row reaches the table at commit: the row with the same
  primary key is replaced.
\<close>

definition save_order :: "db \<Rightarrow> Order \<Rightarrow> db" where
  "save_order s order =
     s\<lparr>orders := map (\<lambda>r. if o_id r = o_id order then order else r) (orders s)\<rparr>"

definition save_customer :: "db \<Rightarrow> Customer \<Rightarrow> db" where
  "save_customer s c =
     s\<lparr>customers := map (\<lambda>x. if c_id x = c_id c then c else x) (customers s)\<rparr>"

section \<open>Stock\<close>

text \<open>SQL \<open>SUM\<close> over the selected rows: \<open>NULL\<close> (\<open>None\<close>) when there is no row.\<close>

definition sql_sum :: "decimal list \<Rightarrow> decimal option" where
  "sql_sum xs = (if xs = [] then None else Some (sum_list xs))"


text \<open>
  The property \<open>Product.current_stock\<close> (product.py) filters on the product id only and
  returns \<open>result or 0\<close>.
\<close>

definition current_stock :: "db \<Rightarrow> Product \<Rightarrow> decimal" where
  "current_stock s product =
     (case sql_sum (map qty_change
             (filter (\<lambda>t. t_product_id t = p_id product) (inventory_transactions s))) of
        None \<Rightarrow> 0
      | Some r \<Rightarrow> if r = 0 then 0 else r)"

text \<open>
  The base-unit quantity of a line as the service computes it:
  \<open>float(item.quantity) * float(item.product_unit.conversion_factor)\<close>.
\<close>

definition qty_base :: "OrderDetail \<Rightarrow> ProductUnit \<Rightarrow> rat" where
  "qty_base item pu = float_mul (to_float (quantity item)) (to_float (conversion_factor pu))"

section \<open>Bookkeeping entries and order transitions\<close>

text \<open>
  \<open>create_revenue_entry\<close> and \<open>create_debt_entry\<close> (bookkeeping.py); \<open>today\<close>
  is \<open>date.today()\<close>.
\<close>

definition create_revenue_entry :: "nat \<Rightarrow> nat \<Rightarrow> decimal \<Rightarrow> nat \<Rightarrow> date \<Rightarrow> BookkeepingEntry" where
  "create_revenue_entry store_id oid amt uid today =
     \<lparr>e_store_id = store_id, entry_type = REVENUE, e_ref_type = ''order'', e_ref_id = oid,
      amount = amt, entry_date = today, e_created_by_user_id = uid\<rparr>"

definition create_debt_entry :: "nat \<Rightarrow> nat \<Rightarrow> decimal \<Rightarrow> nat \<Rightarrow> date \<Rightarrow> BookkeepingEntry" where
  "create_debt_entry store_id oid amt uid today =
     \<lparr>e_store_id = store_id, entry_type = DEBT_IN, e_ref_type = ''order'', e_ref_id = oid,
      amount = amt, entry_date = today, e_created_by_user_id = uid\<rparr>"

text \<open>\<open>Order.confirm\<close>, \<open>Order.complete\<close> and \<open>Order.cancel\<close> (order.py).\<close>

definition confirm :: "Order \<Rightarrow> nat \<Rightarrow> datetime \<Rightarrow> Order" where
  "confirm order uid utcnow =
     order\<lparr>status := CONFIRMED, confirmed_at := Some utcnow, confirmed_by_user_id := Some uid\<rparr>"

definition complete :: "Order \<Rightarrow> Order" where
  "complete order = order\<lparr>status := COMPLETED\<rparr>"

definition cancel :: "Order \<Rightarrow> Order" where
  "cancel order = order\<lparr>status := CANCELED\<rparr>"

section \<open>OrderService.confirm_order\<close>

text \<open>
  The first loop of \<open>confirm_order\<close>: for each line, read \<open>item.product.current_stock\<close>
  and the required base quantity, and raise \<open>InsufficientStockError\<close> at the first line
  whose requirement exceeds the stock. \<open>None\<close> means the loop ran to its end.
\<close>

fun check_stock :: "db \<Rightarrow> OrderDetail list \<Rightarrow> error option" where
  "check_stock s [] = None"
| "check_stock s (item # rest) =
     (case line_product s item of
        None \<Rightarrow> Some AttributeError
      | Some product \<Rightarrow>
          (case line_unit s item of
             None \<Rightarrow> Some AttributeError
           | Some pu \<Rightarrow>
               if current_stock s product < qty_base item pu then Some InsufficientStockError
               else check_stock s rest))"

text \<open>The stock-out row the second loop adds for a line.\<close>

definition stock_out :: "Order \<Rightarrow> User \<Rightarrow> OrderDetail \<Rightarrow> ProductUnit \<Rightarrow> InventoryTransaction" where
  "stock_out order u item pu =
     \<lparr>t_store_id = o_store_id order, t_product_id = product_id item,
      t_product_unit_id = Some (product_unit_id item), qty_change = - qty_base item pu,
      ref_type = Some ''order'', ref_id = Some (o_id order),
      t_created_by_user_id = user_id u\<rparr>"

definition session_add_transaction :: "db \<Rightarrow> InventoryTransaction \<Rightarrow> db" where
  "session_add_transaction s t = s\<lparr>inventory_transactions := inventory_transactions s @ [t]\<rparr>"

definition session_add_entry :: "db \<Rightarrow> BookkeepingEntry \<Rightarrow> db" where
  "session_add_entry s e = s\<lparr>bookkeeping_entries := bookkeeping_entries s @ [e]\<rparr>"

fun deduct_inventory :: "db \<Rightarrow> Order \<Rightarrow> User \<Rightarrow> OrderDetail list \<Rightarrow> error option \<times> db" where
  "deduct_inventory s order u [] = (None, s)"
| "deduct_inventory s order u (item # rest) =
     (case line_unit s item of
        None \<Rightarrow> (Some AttributeError, s)
      | Some pu \<Rightarrow>
          deduct_inventory (session_add_transaction s (stock_out order u item pu)) order u rest)"

text \<open>
  The block "Create bookkeeping entries" of \<open>confirm_order\<close>: a debt entry and
  \<open>add_debt\<close> on the order's customer (when there is one) for a credit sale, a revenue
  entry otherwise. \<open>today\<close> is \<open>date.today()\<close>.
\<close>

definition record_sale :: "db \<Rightarrow> Order \<Rightarrow> User \<Rightarrow> date \<Rightarrow> db" where
  "record_sale s order current_user today =
     (if is_credit order then
        (let s' = session_add_entry s
                    (create_debt_entry (o_store_id order) (o_id order)
                       (total_amount order) (user_id current_user) today)
         in case order_customer s' order of
              None \<Rightarrow> s'
            | Some c \<Rightarrow> save_customer s' (add_debt c (total_amount order)))
      else session_add_entry s
             (create_revenue_entry (o_store_id order) (o_id order)
                (total_amount order) (user_id current_user) today))"

text \<open>
  \<open>confirm_order\<close>; \<open>utcnow\<close> is \<open>datetime.utcnow()\<close> at the call. Every raise
  comes before the first \<open>db.session.add\<close>, except an \<open>AttributeError\<close> inside the
  second loop.
\<close>

definition confirm_order :: "db \<Rightarrow> nat \<Rightarrow> User \<Rightarrow> datetime \<Rightarrow> date \<Rightarrow> result" where
  "confirm_order s oid current_user utcnow today =
     (case get_order s oid of
        None \<Rightarrow> Raised NotFoundError s
      | Some order \<Rightarrow>
          if \<not> can_access_store current_user (o_store_id order) then Raised AuthorizationError s
          else if status order \<noteq> NEW then Raised OrderAlreadyConfirmedError s
          else
            (case check_stock s (order_items s order) of
               Some e \<Rightarrow> Raised e s
             | None \<Rightarrow>
                 (case deduct_inventory s order current_user (order_items s order) of
                    (Some e, s1) \<Rightarrow> Raised e s1
                  | (None, s1) \<Rightarrow>
                      (let s2 = record_sale s1 order current_user today;
                           order' = confirm order (user_id current_user) utcnow
                       in Returned order' (save_order s2 order')))))"

section \<open>OrderService.cancel_order\<close>

definition stock_in :: "Order \<Rightarrow> User \<Rightarrow> OrderDetail \<Rightarrow> ProductUnit \<Rightarrow> InventoryTransaction" where
  "stock_in order u item pu =
     \<lparr>t_store_id = o_store_id order, t_product_id = product_id item,
      t_product_unit_id = Some (product_unit_id item), qty_change = qty_base item pu,
      ref_type = Some ''order_cancel'', ref_id = Some (o_id order),
      t_created_by_user_id = user_id u\<rparr>"

fun restore_inventory :: "db \<Rightarrow> Order \<Rightarrow> User \<Rightarrow> OrderDetail list \<Rightarrow> error option \<times> db" where
  "restore_inventory s order u [] = (None, s)"
| "restore_inventory s order u (item # rest) =
     (case line_unit s item of
        None \<Rightarrow> (Some AttributeError, s)
      | Some pu \<Rightarrow>
          restore_inventory (session_add_transaction s (stock_in order u item pu)) order u rest)"

text \<open>
  The text the service puts before the reason, a line feed and the Vietnamese for
  "cancellation reason: ", as UTF-8 bytes.
\<close>

definition cancel_reason_prefix :: string where
  "cancel_reason_prefix =
     [CHR 0x0A, CHR ''L'', CHR 0xC3, CHR 0xBD, CHR '' '', CHR ''d'', CHR ''o'', CHR '' '',
      CHR ''h'', CHR 0xE1, CHR 0xBB, CHR 0xA7, CHR ''y'', CHR '':'', CHR '' '']"

text \<open>\<open>order.notes = (order.notes or '') + prefix + reason\<close>, done when \<open>reason\<close> is truthy.\<close>

definition append_reason :: "Order \<Rightarrow> string option \<Rightarrow> Order" where
  "append_reason order reason =
     (case reason of
        None \<Rightarrow> order
      | Some r \<Rightarrow>
          if r = [] then order
          else order\<lparr>o_notes :=
                  Some ((case o_notes order of None \<Rightarrow> [] | Some n \<Rightarrow> n)
                        @ cancel_reason_prefix @ r)\<rparr>)"

text \<open>
  The block "Restore customer debt if credit sale":
  \<open>if order.is_credit and order.customer: order.customer.reduce_debt(order.total_amount)\<close>.
\<close>

definition restore_debt :: "db \<Rightarrow> Order \<Rightarrow> db" where
  "restore_debt s order =
     (if is_credit order then
        (case order_customer s order of
           None \<Rightarrow> s
         | Some c \<Rightarrow> save_customer s (reduce_debt c (total_amount order)))
      else s)"

definition cancel_order :: "db \<Rightarrow> nat \<Rightarrow> User \<Rightarrow> string option \<Rightarrow> result" where
  "cancel_order s oid current_user reason =
     (case get_order s oid of
        None \<Rightarrow> Raised NotFoundError s
      | Some order \<Rightarrow>
          if \<not> can_access_store current_user (o_store_id order) then Raised AuthorizationError s
          else if status order = COMPLETED then Raised ValidationError s
          else
            (case (if status order = CONFIRMED then
                     (case restore_inventory s order current_user (order_items s order) of
                        (Some e, s1) \<Rightarrow> (Some e, s1)
                      | (None, s1) \<Rightarrow> (None, restore_debt s1 order))
                   else (None, s)) of
               (Some e, s1) \<Rightarrow> Raised e s1
             | (None, s1) \<Rightarrow>
                 (let order' = append_reason (cancel order) reason
                  in Returned order' (save_order s1 order'))))"

section \<open>OrderService.create_order\<close>

text \<open>
  One element of \<open>items\<close>: the dictionary \<open>{product_unit_id, quantity, unit_price?,
  discount?, notes?}\<close>. A number of the request is the decimal that
  \<open>Decimal(str(...))\<close> makes of it.
\<close>

record item_request =
  i_product_unit_id :: nat
  i_quantity :: decimal
  i_unit_price :: "decimal option"
  i_discount :: "decimal option"
  i_notes :: "string option"

text \<open>Decimal digits of a number, and Python's zero-padded formats \<open>03d\<close>, \<open>04d\<close>.\<close>

fun str_nat :: "nat \<Rightarrow> string" where
  "str_nat n =
     (if n < 10 then [char_of (48 + n)]
      else str_nat (n div 10) @ [char_of (48 + n mod 10)])"

declare str_nat.simps [simp del]

definition zero_pad :: "nat \<Rightarrow> nat \<Rightarrow> string" where
  "zero_pad w n = replicate (w - length (str_nat n)) (CHR ''0'') @ str_nat n"

text \<open>\<open>strftime('%y%m%d')\<close>.\<close>

definition strftime_ymd :: "date \<Rightarrow> string" where
  "strftime_ymd d =
     (case d of (y, m, dd) \<Rightarrow> zero_pad 2 (y mod 100) @ zero_pad 2 m @ zero_pad 2 dd)"

text \<open>
  \<open>generate_order_number\<close> (order.py): the prefix, then one more than the number of the
  store's orders created on the day of \<open>now\<close> (\<open>datetime.now()\<close>).
\<close>

definition generate_order_number :: "db \<Rightarrow> nat \<Rightarrow> datetime \<Rightarrow> string" where
  "generate_order_number s store_id now =
     (let prefix = ''ORD'' @ zero_pad 3 store_id @ strftime_ymd (fst now);
          count = length (filter (\<lambda>r. o_store_id r = store_id \<and> fst (created_at r) = fst now)
                            (orders s))
      in prefix @ zero_pad 4 (count + 1))"

text \<open>
  The primary key that \<open>db.session.flush()\<close> gives the new order: the table's
  auto-increment counter, one above every key in use.
\<close>

definition new_order_id :: "db \<Rightarrow> nat" where
  "new_order_id s = Suc (fold max (map o_id (orders s)) 0)"

text \<open>
  The body of the loop over \<open>items\<close> once the unit and its product are at hand: the
  decimals of the request, the line total and the \<open>OrderDetail\<close> row. The price defaults
  to the unit's price and the discount to 0. Nothing here looks at the sign of the quantity.
\<close>

definition make_order_detail :: "nat \<Rightarrow> Product \<Rightarrow> ProductUnit \<Rightarrow> item_request \<Rightarrow> OrderDetail" where
  "make_order_detail oid product pu item =
     (let qty = i_quantity item;
          uprice = (case i_unit_price item of None \<Rightarrow> price pu | Some v \<Rightarrow> v);
          disc = (case i_discount item of None \<Rightarrow> 0 | Some v \<Rightarrow> v);
          ltotal = qty * uprice - disc
      in \<lparr>order_id = oid, product_id = p_id product, product_unit_id = pu_id pu,
          quantity = qty, unit_price = uprice, discount = disc, line_total = ltotal,
          d_notes = i_notes item\<rparr>)"

text \<open>
  The loop over \<open>items\<close>: it raises \<open>NotFoundError\<close> for a unit that does not exist and
  \<open>ValidationError\<close> for a product of another store, and otherwise adds the row and
  accumulates the total.
\<close>

fun add_order_items ::
  "db \<Rightarrow> nat \<Rightarrow> nat \<Rightarrow> item_request list \<Rightarrow> decimal \<Rightarrow> (error + decimal) \<times> db" where
  "add_order_items s store_id oid [] tot = (Inr tot, s)"
| "add_order_items s store_id oid (item # rest) tot =
     (case get_product_unit s (i_product_unit_id item) of
        None \<Rightarrow> (Inl NotFoundError, s)
      | Some pu \<Rightarrow>
          (case get_product s (pu_product_id pu) of
             None \<Rightarrow> (Inl AttributeError, s)
           | Some product \<Rightarrow>
               if p_store_id product \<noteq> store_id then (Inl ValidationError, s)
               else
                 (let detail = make_order_detail oid product pu item
                  in add_order_items (s\<lparr>order_details := order_details s @ [detail]\<rparr>)
                       store_id oid rest (tot + line_total detail))))"

text \<open>
  The block "Validate customer if provided". \<open>if customer_id:\<close> is false for \<open>None\<close>
  and for \<open>0\<close>; the query filters on the id and on the store.
\<close>

definition find_customer :: "db \<Rightarrow> nat \<Rightarrow> nat \<Rightarrow> Customer option" where
  "find_customer s cid store_id =
     find (\<lambda>c. c_id c = cid \<and> c_store_id c = store_id) (customers s)"

definition resolve_customer :: "db \<Rightarrow> nat option \<Rightarrow> nat \<Rightarrow> error + Customer option" where
  "resolve_customer s cust_id store_id =
     (case cust_id of
        None \<Rightarrow> Inr None
      | Some cid \<Rightarrow>
          if cid = 0 then Inr None
          else (case find_customer s cid store_id of
                  None \<Rightarrow> Inl NotFoundError
                | Some c \<Rightarrow> Inr (Some c)))"

text \<open>
  \<open>create_order\<close>; \<open>utcnow\<close> stamps \<open>created_at\<close> and \<open>now\<close> is the local time used
  for the order number. The order is added and flushed before the loop over the items, so
  a raise inside the loop leaves it in the session, uncommitted.
\<close>

definition create_order ::
  "db \<Rightarrow> nat \<Rightarrow> item_request list \<Rightarrow> User \<Rightarrow> nat option \<Rightarrow> bool \<Rightarrow> string option
     \<Rightarrow> nat option \<Rightarrow> datetime \<Rightarrow> datetime \<Rightarrow> result" where
  "create_order s store_id items current_user cust_id credit note draft_id utcnow now =
     (if \<not> can_access_store current_user store_id then Raised AuthorizationError s
      else
        (case resolve_customer s cust_id store_id of
           Inl e \<Rightarrow> Raised e s
         | Inr customer \<Rightarrow>
             if credit \<and> customer = None then Raised ValidationError s
             else
               (let order = \<lparr>o_id = new_order_id s, o_store_id = store_id,
                              customer_id = cust_id,
                              order_number = generate_order_number s store_id now,
                              status = NEW, is_credit = credit, total_amount = 0,
                              paid_amount = 0, o_notes = note,
                              created_by_user_id = user_id current_user,
                              confirmed_at = None, confirmed_by_user_id = None,
                              source_draft_order_id = draft_id, created_at = utcnow\<rparr>;
                    s1 = s\<lparr>orders := orders s @ [order]\<rparr>
                in case add_order_items s1 store_id (o_id order) items 0 of
                     (Inl e, s2) \<Rightarrow> Raised e s2
                   | (Inr tot, s2) \<Rightarrow>
                       (let order1 = order\<lparr>total_amount := tot\<rparr>;
                            order2 = (if \<not> credit then order1\<lparr>paid_amount := tot\<rparr>
                                      else order1)
                        in Returned order2 (save_order s2 order2)))))"

section \<open>Vocabulary of the statements\<close>

text \<open>
  Every line of the list reaches its product and its unit, as the foreign keys of
  \<open>order_details\<close> (both \<open>nullable=False\<close>) promise.
\<close>

definition lines_resolve :: "db \<Rightarrow> OrderDetail list \<Rightarrow> bool" where
  "lines_resolve s items =
     list_all (\<lambda>item. line_product s item \<noteq> None \<and> line_unit s item \<noteq> None) items"

text \<open>The line asks for more base units than the stock the check reads for its product.\<close>

definition line_short :: "db \<Rightarrow> OrderDetail \<Rightarrow> bool" where
  "line_short s item =
     (case line_product s item of
        None \<Rightarrow> False
      | Some product \<Rightarrow>
          (case line_unit s item of
             None \<Rightarrow> False
           | Some pu \<Rightarrow> current_stock s product < qty_base item pu))"

text \<open>
  The item of a request names an existing unit whose product exists and is of the store;
  and the order line \<open>create_order\<close> then stores for it.
\<close>

definition item_accepted :: "db \<Rightarrow> nat \<Rightarrow> item_request \<Rightarrow> bool" where
  "item_accepted s store_id item =
     (case get_product_unit s (i_product_unit_id item) of
        None \<Rightarrow> False
      | Some pu \<Rightarrow>
          (case get_product s (pu_product_id pu) of
             None \<Rightarrow> False
           | Some product \<Rightarrow> p_store_id product = store_id))"

definition request_line :: "db \<Rightarrow> nat \<Rightarrow> item_request \<Rightarrow> OrderDetail" where
  "request_line s oid item =
     (let pu = the (get_product_unit s (i_product_unit_id item))
      in make_order_detail oid (the (get_product s (pu_product_id pu))) pu item)"

text \<open>What a call yields: the exception if it raised, and the session it leaves.\<close>

fun raised :: "result \<Rightarrow> error option" where
  "raised (Raised e s) = Some e"
| "raised (Returned order s) = None"

fun session :: "result \<Rightarrow> db" where
  "session (Raised e s) = s"
| "session (Returned order s) = s"

section \<open>A sample shop\<close>

text \<open>
  Store 1 sells product 1 by the piece (unit 1) and product 2 by the piece (unit 3) or by
  the case of 24 (unit 2). It holds 100 pieces of product 1, of which order 3 has taken 4,
  and 48 pieces of product 2. Customer 1 is a customer of store 1 with a debt of 50 and a
  limit of 100; customer 2 belongs to store 2.
\<close>

definition clerk :: User where
  "clerk = \<lparr>user_id = 7, user_role = EMPLOYEE, user_store_id = Some 1, owned_stores = []\<rparr>"

definition a_time :: datetime where
  "a_time = ((2024, 5, 17), 36000)"

definition sample_order :: "nat \<Rightarrow> nat option \<Rightarrow> OrderStatus \<Rightarrow> bool \<Rightarrow> decimal \<Rightarrow> Order" where
  "sample_order i cust st credit tot =
     \<lparr>o_id = i, o_store_id = 1, customer_id = cust,
      order_number = ''ORD001240516'' @ zero_pad 4 i, status = st, is_credit = credit,
      total_amount = tot, paid_amount = (if credit then 0 else tot), o_notes = None,
      created_by_user_id = 7, confirmed_at = None, confirmed_by_user_id = None,
      source_draft_order_id = None, created_at = ((2024, 5, 16), 100 * i)\<rparr>"

definition sample_line :: "nat \<Rightarrow> nat \<Rightarrow> nat \<Rightarrow> decimal \<Rightarrow> decimal \<Rightarrow> OrderDetail" where
  "sample_line oid pid uid qty uprice =
     \<lparr>order_id = oid, product_id = pid, product_unit_id = uid, quantity = qty,
      unit_price = uprice, discount = 0, line_total = qty * uprice, d_notes = None\<rparr>"

definition import_row :: "nat \<Rightarrow> nat \<Rightarrow> decimal \<Rightarrow> InventoryTransaction" where
  "import_row store_id pid qty =
     \<lparr>t_store_id = store_id, t_product_id = pid, t_product_unit_id = None, qty_change = qty,
      ref_type = Some ''import'', ref_id = None, t_created_by_user_id = 7\<rparr>"

definition shop :: db where
  "shop =
     \<lparr>customers =
        [\<lparr>c_id = 1, c_store_id = 1, debt_balance = 50, debt_limit = Some 100\<rparr>,
         \<lparr>c_id = 2, c_store_id = 2, debt_balance = 0, debt_limit = None\<rparr>],
      products = [\<lparr>p_id = 1, p_store_id = 1\<rparr>, \<lparr>p_id = 2, p_store_id = 1\<rparr>],
      product_units =
        [\<lparr>pu_id = 1, pu_product_id = 1, price = 20, conversion_factor = 1\<rparr>,
         \<lparr>pu_id = 2, pu_product_id = 2, price = 30, conversion_factor = 24\<rparr>,
         \<lparr>pu_id = 3, pu_product_id = 2, price = 2, conversion_factor = 1\<rparr>],
      orders =
        [sample_order 1 (Some 1) NEW True 106,
         sample_order 2 None NEW False 110,
         sample_order 3 (Some 1) CONFIRMED True 80,
         sample_order 4 None CANCELED False 20,
         sample_order 5 None COMPLETED False 20],
      order_details =
        [sample_line 1 1 1 5 20, sample_line 1 2 3 3 2,
         sample_line 2 1 1 1 20, sample_line 2 2 2 3 30,
         sample_line 3 1 1 4 20,
         sample_line 4 1 1 1 20,
         sample_line 5 1 1 1 20],
      inventory_transactions =
        [import_row 1 1 100, import_row 1 2 48,
         \<lparr>t_store_id = 1, t_product_id = 1, t_product_unit_id = Some 1, qty_change = - 4,
          ref_type = Some ''order'', ref_id = Some 3, t_created_by_user_id = 7\<rparr>],
      bookkeeping_entries =
        [\<lparr>e_store_id = 1, entry_type = DEBT_IN, e_ref_type = ''order'', e_ref_id = 3,
          amount = 80, entry_date = (2024, 5, 16), e_created_by_user_id = 7\<rparr>]\<rparr>"


text \<open>
  A third state: product 1 is sold in units of 3 base units (conversion factor 3.0000),
  the store holds 0.3000 base units, and order 1 asks for 0.1000 of the unit, which is
  exactly 0.3 base units.
\<close>

definition tenth_order :: db where
  "tenth_order =
     \<lparr>customers = [],
      products = [\<lparr>p_id = 1, p_store_id = 1\<rparr>],
      product_units = [\<lparr>pu_id = 1, pu_product_id = 1, price = 20, conversion_factor = 3\<rparr>],
      orders = [sample_order 1 None NEW False 2],
      order_details = [sample_line 1 1 1 (1 / 10) 20],
      inventory_transactions = [import_row 1 1 (3 / 10)],
      bookkeeping_entries = []\<rparr>"

section \<open>Auxiliary facts\<close>











lemma find_map_replace:
  "find (\<lambda>r. k r = i) (map (\<lambda>r. if k r = i then x else r) xs) =
     (if find (\<lambda>r. k r = i) xs = None then None else if k x = i then Some x else None)"
  by (induction xs) (auto simp: find_None_iff)

lemma find_map_other:
  "k x = i \<Longrightarrow> j \<noteq> i \<Longrightarrow>
   find (\<lambda>r. k r = j) (map (\<lambda>r. if k r = i then x else r) xs) = find (\<lambda>r. k r = j) xs"
  by (induction xs) auto

lemma find_key: "find (\<lambda>r. k r = i) xs = Some x \<Longrightarrow> k x = i"
  by (auto simp: find_Some_iff)

lemma get_order_id: "get_order s oid = Some order \<Longrightarrow> o_id order = oid"
  unfolding get_order_def by (rule find_key)

lemma get_order_save_order:
  "get_order s oid = Some order \<Longrightarrow> o_id order' = oid \<Longrightarrow> orders s' = orders s
     \<Longrightarrow> get_order (save_order s' order') oid = Some order'"
  by (simp add: get_order_def save_order_def find_map_replace)

lemma get_order_save_other:
  "o_id order' \<noteq> oid \<Longrightarrow> orders s' = orders s
     \<Longrightarrow> get_order (save_order s' order') oid = get_order s oid"
  by (simp add: get_order_def save_order_def find_map_other)

lemma line_unit_frame [simp]:
  "line_unit (s\<lparr>inventory_transactions := ts\<rparr>) item = line_unit s item"
  by (simp add: line_unit_def get_product_unit_def)

lemma order_customer_frame [simp]:
  "order_customer (s\<lparr>inventory_transactions := ts\<rparr>) order = order_customer s order"
  "order_customer (s\<lparr>bookkeeping_entries := es\<rparr>) order = order_customer s order"
  "order_customer (s\<lparr>orders := os\<rparr>) order = order_customer s order"
  by (simp_all add: order_customer_def get_customer_def split: option.split)



lemma check_stock_short:
  "lines_resolve s items \<Longrightarrow> list_ex (line_short s) items
     \<Longrightarrow> check_stock s items = Some InsufficientStockError"
  by (induction items) (auto simp: lines_resolve_def line_short_def)

lemma check_stock_pass:
  "lines_resolve s items \<Longrightarrow> \<not> list_ex (line_short s) items \<Longrightarrow> check_stock s items = None"
  by (induction items) (auto simp: lines_resolve_def line_short_def)

lemma lines_resolve_units:
  "lines_resolve s items \<Longrightarrow> list_all (\<lambda>item. line_unit s item \<noteq> None) items"
  by (simp add: lines_resolve_def list_all_iff)

lemma deduct_inventory_rows:
  "list_all (\<lambda>item. line_unit s item \<noteq> None) items \<Longrightarrow>
   deduct_inventory s order u items =
     (None, s\<lparr>inventory_transactions := inventory_transactions s
                @ map (\<lambda>item. stock_out order u item (the (line_unit s item))) items\<rparr>)"
proof (induction items arbitrary: s)
  case Nil
  then show ?case by simp
next
  case (Cons item rest)
  from Cons.prems obtain pu where pu: "line_unit s item = Some pu" by auto
  have rest: "list_all (\<lambda>i. line_unit (session_add_transaction s (stock_out order u item pu)) i \<noteq> None) rest"
    using Cons.prems by (simp add: session_add_transaction_def)
  show ?case
    using Cons.IH [OF rest] pu by (simp add: session_add_transaction_def)
qed


lemma deduct_inventory_orders:
  "orders (snd (deduct_inventory s order u items)) = orders s"
  by (induction items arbitrary: s) (auto simp: session_add_transaction_def split: option.split)

lemma restore_inventory_orders:
  "orders (snd (restore_inventory s order u items)) = orders s"
  by (induction items arbitrary: s) (auto simp: session_add_transaction_def split: option.split)

lemma record_sale_fields:
  "inventory_transactions (record_sale s order u today) = inventory_transactions s"
  "bookkeeping_entries (record_sale s order u today) = bookkeeping_entries s
     @ [\<lparr>e_store_id = o_store_id order,
          entry_type = (if is_credit order then DEBT_IN else REVENUE),
          e_ref_type = ''order'', e_ref_id = o_id order, amount = total_amount order,
          entry_date = today, e_created_by_user_id = user_id u\<rparr>]"
  "customers (record_sale s order u today) =
     (if is_credit order then
        (case order_customer s order of
           None \<Rightarrow> customers s
         | Some c \<Rightarrow>
             map (\<lambda>x. if c_id x = c_id c
                       then c\<lparr>debt_balance := debt_balance c + total_amount order\<rparr> else x)
               (customers s))
      else customers s)"
  "orders (record_sale s order u today) = orders s"
  "order_details (record_sale s order u today) = order_details s"
  "products (record_sale s order u today) = products s"
  "product_units (record_sale s order u today) = product_units s"
  by (simp_all add: record_sale_def Let_def session_add_entry_def save_customer_def
      create_debt_entry_def create_revenue_entry_def add_debt_def split: option.split)

lemma restore_debt_fields:
  "inventory_transactions (restore_debt s order) = inventory_transactions s"
  "bookkeeping_entries (restore_debt s order) = bookkeeping_entries s"
  "customers (restore_debt s order) =
     (if is_credit order then
        (case order_customer s order of
           None \<Rightarrow> customers s
         | Some c \<Rightarrow>
             map (\<lambda>x. if c_id x = c_id c
                       then c\<lparr>debt_balance := max 0 (debt_balance c - total_amount order)\<rparr> else x)
               (customers s))
      else customers s)"
  "orders (restore_debt s order) = orders s"
  "order_details (restore_debt s order) = order_details s"
  "products (restore_debt s order) = products s"
  "product_units (restore_debt s order) = product_units s"
  by (simp_all add: restore_debt_def save_customer_def reduce_debt_def split: option.split)



lemma order_customer_save_order [simp]:
  "order_customer (save_order s order') order = order_customer s order"
  by (simp add: save_order_def)

lemma save_order_fields:
  "inventory_transactions (save_order s order) = inventory_transactions s"
  "bookkeeping_entries (save_order s order) = bookkeeping_entries s"
  "customers (save_order s order) = customers s"
  "order_details (save_order s order) = order_details s"
  "products (save_order s order) = products s"
  "product_units (save_order s order) = product_units s"
  by (simp_all add: save_order_def)

lemma confirm_order_result:
  assumes "get_order s oid = Some order"
    and "can_access_store u (o_store_id order)"
    and "status order = NEW"
    and "lines_resolve s (order_items s order)"
    and "\<not> list_ex (line_short s) (order_items s order)"
  shows "confirm_order s oid u utcnow today =
           Returned (confirm order (user_id u) utcnow)
             (save_order
                (record_sale
                   (s\<lparr>inventory_transactions := inventory_transactions s
                        @ map (\<lambda>item. stock_out order u item (the (line_unit s item)))
                            (order_items s order)\<rparr>) order u today)
                (confirm order (user_id u) utcnow))"
proof -
  have chk: "check_stock s (order_items s order) = None"
    using assms(4,5) by (rule check_stock_pass)
  show ?thesis
    using assms(1-3) chk
    by (simp add: confirm_order_def deduct_inventory_rows [OF lines_resolve_units [OF assms(4)]]
        Let_def)
qed


lemma get_order_cong: "orders s' = orders s \<Longrightarrow> get_order s' i = get_order s i"
  by (simp add: get_order_def)

lemma append_reason_frame:
  "o_id (append_reason order reason) = o_id order"
  "status (append_reason order reason) = status order"
  by (simp_all add: append_reason_def split: option.split)

lemma confirm_order_keeps_status:
  assumes "get_order s oid = Some order" and "status order \<noteq> NEW"
  shows "map_option status (get_order (session (confirm_order s oid' u utcnow today)) oid)
           = Some (status order)"
proof (cases "get_order s oid'")
  case None
  then show ?thesis using assms by (simp add: confirm_order_def)
next
  case (Some order')
  show ?thesis
  proof (cases "can_access_store u (o_store_id order') \<and> status order' = NEW
                  \<and> check_stock s (order_items s order') = None")
    case False
    then show ?thesis
      using Some assms by (auto simp: confirm_order_def split: option.split)
  next
    case True
    with Some assms have ne: "oid' \<noteq> oid" by auto
    have id': "o_id order' = oid'" using Some by (rule get_order_id)
    obtain e s1 where d: "deduct_inventory s order' u (order_items s order') = (e, s1)"
      by (cases "deduct_inventory s order' u (order_items s order')")
    have os: "orders s1 = orders s"
      using deduct_inventory_orders [of s order' u "order_items s order'"] d by simp
    show ?thesis
    proof (cases e)
      case None
      have "get_order (save_order (record_sale s1 order' u today)
                 (confirm order' (user_id u) utcnow)) oid = get_order s oid"
        by (rule get_order_save_other) (simp_all add: confirm_def id' ne record_sale_fields os)
      then show ?thesis
        using Some True d None assms by (simp add: confirm_order_def Let_def)
    next
      case (Some err)
      then show ?thesis
        using \<open>get_order s oid' = Some order'\<close> True d assms get_order_cong [OF os, of oid]
        by (simp add: confirm_order_def)
    qed
  qed
qed

lemma cancel_order_keeps_status:
  assumes "get_order s oid = Some order"
    and "status order = COMPLETED \<or> status order = CANCELED"
  shows "map_option status (get_order (session (cancel_order s oid' u reason)) oid)
           = Some (status order)"
proof (cases "get_order s oid'")
  case None
  then show ?thesis using assms by (simp add: cancel_order_def)
next
  case (Some order')
  have id': "o_id order' = oid'" using Some by (rule get_order_id)
  show ?thesis
  proof (cases "can_access_store u (o_store_id order') \<and> status order' \<noteq> COMPLETED")
    case False
    then show ?thesis using Some assms by (auto simp: cancel_order_def)
  next
    case True
    let ?o = "append_reason (cancel order') reason"
    have ido: "o_id ?o = oid'" by (simp add: append_reason_frame cancel_def id')
    have sto: "status ?o = CANCELED" by (simp add: append_reason_frame cancel_def)
    show ?thesis
    proof (cases "status order' = CONFIRMED")
      case False
      have "map_option status (get_order (save_order s ?o) oid) = Some (status order)"
      proof (cases "oid' = oid")
        case True
        with Some assms(1) have same: "order' = order" by simp
        from Some ido have "get_order (save_order s ?o) oid' = Some ?o"
          by (rule get_order_save_order) simp
        moreover from same \<open>can_access_store u (o_store_id order') \<and> status order' \<noteq> COMPLETED\<close> assms(2)
        have "status order = CANCELED" by auto
        ultimately show ?thesis using True sto by simp
      next
        case ne: False
        have "get_order (save_order s ?o) oid = get_order s oid"
          by (rule get_order_save_other) (simp_all add: ido ne)
        then show ?thesis using assms(1) by simp
      qed
      then show ?thesis
        using Some True False by (simp add: cancel_order_def Let_def)
    next
      case conf: True
      with Some assms have ne: "oid' \<noteq> oid" by auto
      obtain e s1 where d: "restore_inventory s order' u (order_items s order') = (e, s1)"
        by (cases "restore_inventory s order' u (order_items s order')")
      have os: "orders s1 = orders s"
        using restore_inventory_orders [of s order' u "order_items s order'"] d by simp
      show ?thesis
      proof (cases e)
        case None
        have "get_order (save_order (restore_debt s1 order') ?o) oid = get_order s oid"
          by (rule get_order_save_other) (simp_all add: ido ne restore_debt_fields os)
        then show ?thesis
          using Some True conf d None assms(1) by (simp add: cancel_order_def Let_def)
      next
        case (Some err)
        then show ?thesis
          using \<open>get_order s oid' = Some order'\<close> True conf d assms(1)
            get_order_cong [OF os, of oid]
          by (simp add: cancel_order_def)
      qed
    qed
  qed
qed




lemma get_product_frame [simp]:
  "get_product (s\<lparr>order_details := ds\<rparr>) i = get_product s i"
  "get_product (s\<lparr>orders := os\<rparr>) i = get_product s i"
  "get_product_unit (s\<lparr>order_details := ds\<rparr>) i = get_product_unit s i"
  "get_product_unit (s\<lparr>orders := os\<rparr>) i = get_product_unit s i"
  by (simp_all add: get_product_unit_def get_product_def)


lemma item_accepted_frame [simp]:
  "item_accepted (s\<lparr>order_details := ds\<rparr>) = item_accepted s"
  "item_accepted (s\<lparr>orders := os\<rparr>) = item_accepted s"
  by (simp_all add: item_accepted_def fun_eq_iff cong: option.case_cong)

lemma request_line_frame [simp]:
  "request_line (s\<lparr>order_details := ds\<rparr>) = request_line s"
  "request_line (s\<lparr>orders := os\<rparr>) = request_line s"
  by (simp_all add: request_line_def fun_eq_iff)







lemma confirm_order_session:
  assumes "get_order s oid = Some order"
    and "can_access_store u (o_store_id order)"
    and "status order = NEW"
    and "lines_resolve s (order_items s order)"
    and "\<not> list_ex (line_short s) (order_items s order)"
  shows "raised (confirm_order s oid u utcnow today) = None"
    and "customers (session (confirm_order s oid u utcnow today)) =
          (if is_credit order then
             (case order_customer s order of
                None \<Rightarrow> customers s
              | Some c \<Rightarrow>
                  map (\<lambda>x. if c_id x = c_id c
                            then c\<lparr>debt_balance := debt_balance c + total_amount order\<rparr> else x)
                    (customers s))
           else customers s)"
  unfolding confirm_order_result [OF assms]
  by (simp_all add: save_order_fields record_sale_fields split: option.split)

section \<open>Properties of the order lifecycle\<close>

subsection \<open>Debt account\<close>

text \<open>
  C8. \<open>reduce_debt a\<close> sets the balance to \<open>max 0 (balance - a)\<close>, so the new balance
  is never negative, and a second \<open>reduce_debt a\<close> right after the first leaves a balance
  that is again clamped at zero. This holds for every balance and amount, in particular for
  the non-negative ones.
\<close>

theorem reduce_debt_clamps_at_zero:
  "debt_balance (reduce_debt c a) = max 0 (debt_balance c - a)
   \<and> 0 \<le> debt_balance (reduce_debt c a)
   \<and> debt_balance (reduce_debt (reduce_debt c a) a) = max 0 (max 0 (debt_balance c - a) - a)
   \<and> 0 \<le> debt_balance (reduce_debt (reduce_debt c a) a)"
  by (simp add: reduce_debt_def)

subsection \<open>Confirmation\<close>

text \<open>
  C1. Take an order that exists, is in state \<open>NEW\<close>, is confirmed by a user with access
  to its store, and whose lines all reach their product and unit. If at least one line asks
  for more base units (the quantity converted by the service with the unit's conversion
  factor, \<open>qty_base\<close>) than the current stock of its product, \<open>confirm_order\<close> raises
  \<open>InsufficientStockError\<close> and the session is the one it started from: no movement for
  any line, also not for the lines that fit, no ledger entry, no change of a debt balance,
  and the order still \<open>NEW\<close>.
\<close>

theorem confirm_order_insufficient_stock:
  assumes "get_order s oid = Some order"
    and "can_access_store u (o_store_id order)"
    and "status order = NEW"
    and "lines_resolve s (order_items s order)"
    and "list_ex (line_short s) (order_items s order)"
  shows "confirm_order s oid u utcnow today = Raised InsufficientStockError s"
  using assms by (simp add: confirm_order_def check_stock_short)

text \<open>
  Order 2 of the sample shop: its first line (one piece of product 1) fits, its second
  (three cases of product 2, 72 pieces against 48) does not.
\<close>

theorem confirm_order_insufficient_stock_witness:
  "confirm_order shop 2 clerk a_time (2024, 5, 17) = Raised InsufficientStockError shop
   \<and> list_ex (\<lambda>item. \<not> line_short shop item)
        (order_items shop (sample_order 2 None NEW False 110))"
proof -
  let ?order = "sample_order 2 None NEW False 110"
  have 1: "get_order shop 2 = Some ?order" by code_simp
  have 2: "can_access_store clerk (o_store_id ?order)" by code_simp
  have 3: "status ?order = NEW" by code_simp
  have 4: "lines_resolve shop (order_items shop ?order)" by code_simp
  have 5: "list_ex (line_short shop) (order_items shop ?order)" by code_simp
  have 6: "list_ex (\<lambda>item. \<not> line_short shop item) (order_items shop ?order)" by code_simp
  from confirm_order_insufficient_stock [OF 1 2 3 4 5] 6 show ?thesis by simp
qed



subsection \<open>Cancellation\<close>




subsection \<open>Terminal states\<close>

text \<open>
  C6, as the code has it. For an existing order and a user with access to its store:
  \<open>confirm_order\<close> on an order that is not \<open>NEW\<close> (so \<open>CONFIRMED\<close>, \<open>COMPLETED\<close>
  or \<open>CANCELED\<close>) raises \<open>OrderAlreadyConfirmedError\<close>, and \<open>cancel_order\<close> on a
  \<open>COMPLETED\<close> order raises \<open>ValidationError\<close>, both with the session unchanged.
  \<open>cancel_order\<close> on an order that is already \<open>CANCELED\<close> does not fail: it returns the
  order, still \<open>CANCELED\<close>, with the reason (if any) appended to its notes, and writes no
  movement, no ledger entry and no debt change. In every case, whichever order and user a
  call of \<open>confirm_order\<close> or \<open>cancel_order\<close> names, an order that is \<open>COMPLETED\<close>
  or \<open>CANCELED\<close> has the same status afterwards.
\<close>

theorem terminal_orders_keep_status:
  assumes "get_order s oid = Some order"
    and "can_access_store u (o_store_id order)"
  shows "(status order \<noteq> NEW \<longrightarrow>
            confirm_order s oid u utcnow today = Raised OrderAlreadyConfirmedError s)
     \<and> (status order = COMPLETED \<longrightarrow>
            cancel_order s oid u reason = Raised ValidationError s)
     \<and> (status order = CANCELED \<longrightarrow>
            cancel_order s oid u reason =
              Returned (append_reason order reason) (save_order s (append_reason order reason))
            \<and> status (append_reason order reason) = CANCELED
            \<and> inventory_transactions (save_order s (append_reason order reason))
                = inventory_transactions s
            \<and> bookkeeping_entries (save_order s (append_reason order reason))
                = bookkeeping_entries s
            \<and> customers (save_order s (append_reason order reason)) = customers s)
     \<and> (status order = COMPLETED \<or> status order = CANCELED \<longrightarrow>
          (\<forall>oid' u'.
             map_option status (get_order (session (confirm_order s oid' u' utcnow today)) oid)
               = Some (status order)
             \<and> map_option status (get_order (session (cancel_order s oid' u' reason)) oid)
               = Some (status order)))"
proof -
  have a: "status order \<noteq> NEW \<longrightarrow>
            confirm_order s oid u utcnow today = Raised OrderAlreadyConfirmedError s"
    using assms by (simp add: confirm_order_def)
  have b: "status order = COMPLETED \<longrightarrow>
            cancel_order s oid u reason = Raised ValidationError s"
    using assms by (simp add: cancel_order_def)
  have same: "status order = CANCELED \<Longrightarrow> cancel order = order"
    by (simp add: cancel_def)
  have c: "status order = CANCELED \<longrightarrow>
            cancel_order s oid u reason =
              Returned (append_reason order reason) (save_order s (append_reason order reason))
            \<and> status (append_reason order reason) = CANCELED
            \<and> inventory_transactions (save_order s (append_reason order reason))
                = inventory_transactions s
            \<and> bookkeeping_entries (save_order s (append_reason order reason))
                = bookkeeping_entries s
            \<and> customers (save_order s (append_reason order reason)) = customers s"
    using assms
    by (simp add: cancel_order_def Let_def same append_reason_frame save_order_fields)
  have d: "status order = COMPLETED \<or> status order = CANCELED \<longrightarrow>
          (\<forall>oid' u'.
             map_option status (get_order (session (confirm_order s oid' u' utcnow today)) oid)
               = Some (status order)
             \<and> map_option status (get_order (session (cancel_order s oid' u' reason)) oid)
               = Some (status order))"
  proof (intro impI allI conjI)
    fix oid' u'
    assume t: "status order = COMPLETED \<or> status order = CANCELED"
    then have "status order \<noteq> NEW" by auto
    with assms(1)
    show "map_option status (get_order (session (confirm_order s oid' u' utcnow today)) oid)
            = Some (status order)"
      by (rule confirm_order_keeps_status)
    from assms(1) t
    show "map_option status (get_order (session (cancel_order s oid' u' reason)) oid)
            = Some (status order)"
      by (rule cancel_order_keeps_status)
  qed
  from a b c d show ?thesis by blast
qed


text \<open>Order 5 of the sample shop is \<open>COMPLETED\<close>, order 4 is \<open>CANCELED\<close>.\<close>

theorem terminal_orders_keep_status_witness:
  "confirm_order shop 5 clerk a_time (2024, 5, 17) = Raised OrderAlreadyConfirmedError shop
   \<and> cancel_order shop 5 clerk None = Raised ValidationError shop
   \<and> map_option status (get_order (session (cancel_order shop 1 clerk None)) 5) = Some COMPLETED"
proof -
  let ?o5 = "sample_order 5 None COMPLETED False 20"
  have 1: "get_order shop 5 = Some ?o5" by code_simp
  have 2: "can_access_store clerk (o_store_id ?o5)" by code_simp
  have 3: "status ?o5 = COMPLETED" by code_simp
  from terminal_orders_keep_status [OF 1 2, of a_time "(2024, 5, 17)" None] 3
  show ?thesis by simp
qed

text \<open>
  The sentence of the specification fails on order 4: it is already \<open>CANCELED\<close>, and cancelling it
  again returns normally.
\<close>

theorem cancel_canceled_order_returns:
  "map_option status (get_order shop 4) = Some CANCELED
   \<and> can_access_store clerk 1
   \<and> raised (cancel_order shop 4 clerk (Some ''again'')) = None"
  by code_simp

subsection \<open>Stock\<close>




subsection \<open>Debt limit\<close>

text \<open>
  C5. \<open>confirm_order\<close> never calls \<open>can_add_debt\<close> and never raises
  \<open>InsufficientBalanceError\<close>. In the sample shop customer 1 owes 50 with a limit of 100,
  so \<open>can_add_debt\<close> refuses the 106 of order 1; confirming order 1 nevertheless returns
  and leaves the customer with a debt of 156.
\<close>

theorem confirm_order_exceeds_debt_limit:
  "order_customer shop (sample_order 1 (Some 1) NEW True 106)
     = Some \<lparr>c_id = 1, c_store_id = 1, debt_balance = 50, debt_limit = Some 100\<rparr>
   \<and> \<not> can_add_debt \<lparr>c_id = 1, c_store_id = 1, debt_balance = 50, debt_limit = Some 100\<rparr> 106
   \<and> raised (confirm_order shop 1 clerk a_time (2024, 5, 17)) = None
   \<and> map debt_balance (customers (session (confirm_order shop 1 clerk a_time (2024, 5, 17))))
       = [156, 0]"
proof -
  let ?order = "sample_order 1 (Some 1) NEW True 106"
  let ?c = "\<lparr>c_id = 1, c_store_id = 1, debt_balance = 50, debt_limit = Some 100\<rparr>"
  have 1: "get_order shop 1 = Some ?order" by code_simp
  have 2: "can_access_store clerk (o_store_id ?order)" by code_simp
  have 3: "status ?order = NEW" by code_simp
  have 4: "lines_resolve shop (order_items shop ?order)" by code_simp
  have 5: "\<not> list_ex (line_short shop) (order_items shop ?order)" by code_simp
  have a: "order_customer shop ?order = Some ?c" by code_simp
  have b: "\<not> can_add_debt ?c 106" by code_simp
  have c: "raised (confirm_order shop 1 clerk a_time (2024, 5, 17)) = None"
    by (rule confirm_order_session(1) [OF 1 2 3 4 5])
  have ev: "map debt_balance
          (if is_credit ?order then
             (case order_customer shop ?order of
                None \<Rightarrow> customers shop
              | Some c \<Rightarrow>
                  map (\<lambda>x. if c_id x = c_id c
                            then c\<lparr>debt_balance := debt_balance c + total_amount ?order\<rparr> else x)
                    (customers shop))
           else customers shop) = [156, 0]"
    by code_simp
  have d: "map debt_balance
      (customers (session (confirm_order shop 1 clerk a_time (2024, 5, 17)))) = [156, 0]"
    unfolding confirm_order_session(2) [OF 1 2 3 4 5] by (rule ev)
  from a b c d show ?thesis by blast
qed

subsection \<open>Arithmetic of the stock check\<close>

text \<open>
  C7. The base quantity is computed in binary floating point. In the third sample state the
  line asks for 0.1 of a unit of 3 base units, which is exactly 0.3, and the stock is
  exactly 0.3; the service computes \<open>float(0.1) * float(3) = 0.30000000000000004\<close>
  (the double \<open>5404319552844596 / 2 ^ 54\<close>), finds it above the stock and raises
  \<open>InsufficientStockError\<close>.
\<close>

theorem confirm_order_rounds_in_binary:
  "quantity (sample_line 1 1 1 (1 / 10) 20) * conversion_factor
        \<lparr>pu_id = 1, pu_product_id = 1, price = 20, conversion_factor = 3\<rparr> = 3 / 10
   \<and> current_stock tenth_order \<lparr>p_id = 1, p_store_id = 1\<rparr> = 3 / 10
   \<and> qty_base (sample_line 1 1 1 (1 / 10) 20)
        \<lparr>pu_id = 1, pu_product_id = 1, price = 20, conversion_factor = 3\<rparr>
       = 5404319552844596 / 18014398509481984
   \<and> confirm_order tenth_order 1 clerk a_time (2024, 5, 17)
       = Raised InsufficientStockError tenth_order"
proof -
  let ?order = "sample_order 1 None NEW False 2"
  let ?item = "sample_line 1 1 1 (1 / 10) 20"
  let ?pu = "\<lparr>pu_id = 1, pu_product_id = 1, price = 20, conversion_factor = 3\<rparr>"
  have 1: "get_order tenth_order 1 = Some ?order" by code_simp
  have 2: "can_access_store clerk (o_store_id ?order)" by code_simp
  have 3: "status ?order = NEW" by code_simp
  have 4: "lines_resolve tenth_order (order_items tenth_order ?order)" by code_simp
  have 5: "list_ex (line_short tenth_order) (order_items tenth_order ?order)" by code_simp
  have a: "quantity ?item * conversion_factor ?pu = 3 / 10" by code_simp
  have b: "current_stock tenth_order \<lparr>p_id = 1, p_store_id = 1\<rparr> = 3 / 10" by code_simp
  have c: "qty_base ?item ?pu = 5404319552844596 / 18014398509481984" by code_simp
  have d: "confirm_order tenth_order 1 clerk a_time (2024, 5, 17)
             = Raised InsufficientStockError tenth_order"
    using 1 2 3 check_stock_short [OF 4 5] by (simp add: confirm_order_def)
  from a b c d show ?thesis by blast
qed

subsection \<open>Order creation\<close>

text \<open>
  C10. A request by a user with access to the store that gives a customer id (an id that
  \<open>if customer_id:\<close> takes as given, so not 0) of which no customer row belongs to the
  store, in particular the id of a customer of another store, makes \<open>create_order\<close>
  raise \<open>NotFoundError\<close> before anything is added to the session: no order is created,
  whether the request is a credit sale or not.
\<close>

theorem create_order_foreign_customer:
  assumes "can_access_store u store_id"
    and "cid \<noteq> 0"
    and "\<forall>c \<in> set (customers s). c_id c = cid \<longrightarrow> c_store_id c \<noteq> store_id"
  shows "create_order s store_id items u (Some cid) credit note draft_id utcnow now
           = Raised NotFoundError s"
proof -
  have "find_customer s cid store_id = None"
    using assms(3) by (auto simp: find_customer_def find_None_iff)
  then show ?thesis using assms(1,2) by (simp add: create_order_def resolve_customer_def)
qed

text \<open>Customer 2 of the sample shop belongs to store 2; the request is for store 1.\<close>

theorem create_order_foreign_customer_witness:
  "get_customer shop 2 = Some \<lparr>c_id = 2, c_store_id = 2, debt_balance = 0, debt_limit = None\<rparr>
   \<and> create_order shop 1
        [\<lparr>i_product_unit_id = 1, i_quantity = 2, i_unit_price = None, i_discount = None,
          i_notes = None\<rparr>] clerk (Some 2) True None None a_time a_time
       = Raised NotFoundError shop"
proof -
  have 1: "can_access_store clerk 1" by code_simp
  have 2: "(2::nat) \<noteq> 0" by simp
  have 3: "\<forall>c \<in> set (customers shop). c_id c = 2 \<longrightarrow> c_store_id c \<noteq> 1" by code_simp
  have 4: "get_customer shop 2 = Some \<lparr>c_id = 2, c_store_id = 2, debt_balance = 0, debt_limit = None\<rparr>"
    by code_simp
  from create_order_foreign_customer [OF 1 2 3] 4 show ?thesis by simp
qed




end
